theory Spec2Isabelle
  imports Complex_Main
begin

section \<open>Stochastic solver: measurement configuration, trajectories, reduction\<close>

text \<open>
  A shallow embedding of \<^verbatim>\<open>qutip/solver/stochastic.py\<close>. Operators, the
  integrator and the base result class are collaborators of this file; they enter the
  model as parameters (records of functions), so every theorem holds for any
  operator algebra and any integrator.
\<close>

subsection \<open>Errors and argument values\<close>

datatype error =
    TypeError string
  | ValueError string
  | IndexError string
  | AttributeError string
  | ExternalError string

text \<open>
  The operator algebra the constructor consumes: \<^verbatim>\<open>QobjEvo(x)\<close>,
  \<^verbatim>\<open>x.dag()\<close>, \<^verbatim>\<open>x + y\<close>, \<^verbatim>\<open>x - y\<close>, \<^verbatim>\<open>z * x\<close> and the predicate
  \<^verbatim>\<open>x.isoper\<close>.
\<close>

record 'op algebra =
  QobjEvo :: "'op \<Rightarrow> 'op"
  dag :: "'op \<Rightarrow> 'op"
  op_add :: "'op \<Rightarrow> 'op \<Rightarrow> 'op"
  op_sub :: "'op \<Rightarrow> 'op \<Rightarrow> 'op"
  op_scale :: "complex \<Rightarrow> 'op \<Rightarrow> 'op"
  isoper :: "'op \<Rightarrow> bool"

text \<open>
  The argument \<^verbatim>\<open>H\<close>: an instance of \<^verbatim>\<open>Qobj\<close> or \<^verbatim>\<open>QobjEvo\<close>, or any
  other Python object. The argument \<^verbatim>\<open>sc_ops\<close>: one such instance, or a list.
\<close>

datatype 'op h_arg = Operator 'op | NotOperator

datatype 'op sc_arg = Single 'op | Several "'op list"

text \<open>
  The value of the option \<^verbatim>\<open>dW_factor\<close>: \<^verbatim>\<open>None\<close>, a number, or a list of
  numbers. The solver reads the options \<^verbatim>\<open>heterodyne\<close>,
  \<^verbatim>\<open>store_measurement\<close> and \<^verbatim>\<open>dW_factor\<close>. The options object belongs to
  the base class; the record holds the three values as the constructor reads them.
  (The table of defaults spells the third key \<^verbatim>\<open>dw_factor\<close>; what a lookup of
  \<^verbatim>\<open>dW_factor\<close> does when the caller gave none is decided by that object.)
\<close>

datatype dw_value = PyNone | Scalar real | Sequence "real list"

record options =
  heterodyne :: bool
  store_measurement :: bool
  dW_factor :: dw_value

record ('op, 'rhs) solver =
  rhs :: 'rhs
  options :: options
  m_ops :: "'op list"
  dW_factors :: "real option list"

subsection \<open>\<^verbatim>\<open>StochasticSolver.__init__\<close>\<close>

text \<open>Python truth value of a \<^verbatim>\<open>dW_factor\<close>, as \<^verbatim>\<open>x or default\<close> tests it.\<close>

fun truthy :: "dw_value \<Rightarrow> bool" where
  "truthy PyNone = False"
| "truthy (Scalar w) = (w \<noteq> 0)"
| "truthy (Sequence xs) = (xs \<noteq> [])"

definition py_or :: "dw_value \<Rightarrow> real \<Rightarrow> dw_value" where
  "py_or d x = (if truthy d then d else Scalar x)"

text \<open>
  \<^verbatim>\<open>if not isinstance(dW_factor, Iterable): dW_factor = [dW_factor] * n_m_ops\<close>:
  of the three kinds of value only the list is iterable (\<^verbatim>\<open>Iterable\<close> is read as
  the class of \<^verbatim>\<open>collections.abc\<close>). From here on the value is a list; an entry
  \<open>None\<close> is Python's \<^verbatim>\<open>None\<close>.
\<close>

fun broadcast :: "dw_value \<Rightarrow> nat \<Rightarrow> real option list" where
  "broadcast (Sequence xs) n = map Some xs"
| "broadcast (Scalar w) n = replicate n (Some w)"
| "broadcast PyNone n = replicate n None"

text \<open>\<^verbatim>\<open>[i for i in dW_factor for _ in range(2)]\<close>\<close>

definition twice :: "'a list \<Rightarrow> 'a list" where
  "twice xs = concat (map (\<lambda>i. replicate 2 i) xs)"

definition n_m_ops :: "options \<Rightarrow> 'op list \<Rightarrow> nat" where
  "n_m_ops opts sc = length sc * (1 + (if heterodyne opts then 1 else 0))"

text \<open>The measurement operators derived from the collapse operators.\<close>

definition heterodyne_m_ops :: "'op algebra \<Rightarrow> 'op list \<Rightarrow> 'op list" where
  "heterodyne_m_ops alg sc =
     concat (map (\<lambda>op. [op_add alg op (dag alg op),
                         op_scale alg (- \<i>) (op_sub alg op (dag alg op))]) sc)"

definition homodyne_m_ops :: "'op algebra \<Rightarrow> 'op list \<Rightarrow> 'op list" where
  "homodyne_m_ops alg sc = map (\<lambda>op. op_add alg op (dag alg op)) sc"

text \<open>
  The first \<^verbatim>\<open>if/elif/else\<close> of the measurement block: the measurement operators and
  the \<^verbatim>\<open>dW_factor\<close> value after it.
\<close>

definition select_m_ops ::
  "'op algebra \<Rightarrow> options \<Rightarrow> 'op list \<Rightarrow> 'op list \<Rightarrow> 'op list \<times> dw_value" where
  "select_m_ops alg opts sc m_arg =
     (if length m_arg = n_m_ops opts sc then (m_arg, dW_factor opts)
      else if heterodyne opts then (heterodyne_m_ops alg sc, py_or (dW_factor opts) (sqrt 2))
      else (homodyne_m_ops alg sc, py_or (dW_factor opts) 1))"

text \<open>The list \<^verbatim>\<open>dW_factor\<close> as it stands when its length is tested.\<close>

definition resolve_dW_factor ::
  "'op algebra \<Rightarrow> options \<Rightarrow> 'op list \<Rightarrow> 'op list \<Rightarrow> real option list" where
  "resolve_dW_factor alg opts sc m_arg =
     (let d = broadcast (snd (select_m_ops alg opts sc m_arg)) (n_m_ops opts sc)
      in if length d = length sc \<and> heterodyne opts then twice d else d)"

text \<open>The block guarded by \<^verbatim>\<open>self.options["store_measurement"]\<close>, with its else branch.\<close>

definition measurement_config ::
  "'op algebra \<Rightarrow> options \<Rightarrow> 'op list \<Rightarrow> 'op list \<Rightarrow> error + ('op list \<times> real option list)" where
  "measurement_config alg opts sc m_arg =
     (if store_measurement opts then
        (let d = resolve_dW_factor alg opts sc m_arg
         in if length d \<noteq> n_m_ops opts sc then Inl (ValueError ''Bad dW_factor option'')
            else Inr (fst (select_m_ops alg opts sc m_arg), d))
      else Inr ([], []))"

text \<open>\<^verbatim>\<open>if isinstance(sc_ops, (Qobj, QobjEvo)): sc_ops = [sc_ops]\<close>\<close>

fun sc_list :: "'op sc_arg \<Rightarrow> 'op list" where
  "sc_list (Single c) = [c]"
| "sc_list (Several cs) = cs"

text \<open>
  The constructor. \<open>prep\<close> stands for \<^verbatim>\<open>self._prep_system\<close> followed by the base
  class constructor: the only place where the two solver variants differ, and code
  that may raise on its own.
\<close>

definition StochasticSolver_init ::
  "'op algebra \<Rightarrow> ('op \<Rightarrow> 'op list \<Rightarrow> bool \<Rightarrow> error + 'rhs) \<Rightarrow>
   'op h_arg \<Rightarrow> 'op sc_arg \<Rightarrow> options \<Rightarrow> 'op list \<Rightarrow> error + ('op, 'rhs) solver" where
  "StochasticSolver_init alg prep H sc_ops opts m_arg =
     (case H of
        NotOperator \<Rightarrow> Inl (TypeError ''...'')
      | Operator h \<Rightarrow>
          (let H' = QobjEvo alg h;
               sc = map (QobjEvo alg) (sc_list sc_ops)
           in if list_ex (\<lambda>c_op. \<not> isoper alg c_op) sc
              then Inl (TypeError ''sc_ops must be operators'')
              else (case prep H' sc (heterodyne opts) of
                      Inl e \<Rightarrow> Inl e
                    | Inr r \<Rightarrow>
                        (case measurement_config alg opts sc m_arg of
                           Inl e \<Rightarrow> Inl e
                         | Inr (m, d) \<Rightarrow>
                             Inr \<lparr>rhs = r, options = opts, m_ops = m, dW_factors = d\<rparr>))))"

subsection \<open>\<^verbatim>\<open>StochasticTrajResult\<close>\<close>

text \<open>
  The noise of one step is a two-dimensional NumPy array: one row for each substep
  the integrator took, one column for each noise channel. \<open>ncols\<close> is kept apart
  from the rows, since an array with no row still has its columns.
\<close>

record array2 =
  ncols :: nat
  rows :: "real list list"

definition wf_array2 :: "array2 \<Rightarrow> bool" where
  "wf_array2 a = list_all (\<lambda>r. length r = ncols a) (rows a)"

text \<open>
  \<^verbatim>\<open>noise / dt\<close>, elementwise. With \<open>dt = 0\<close> NumPy gives IEEE infinities, which the
  reals do not have: the theorems on values below take the recorded times distinct.
\<close>

definition np_div :: "array2 \<Rightarrow> real \<Rightarrow> array2" where
  "np_div a dt = a\<lparr>rows := map (map (\<lambda>x. x / dt)) (rows a)\<rparr>"

text \<open>\<^verbatim>\<open>np.sum(noise, axis=0)\<close>: the sum of each column over the substeps.\<close>

definition np_sum_axis0 :: "array2 \<Rightarrow> real list" where
  "np_sum_axis0 a = map (\<lambda>j. sum_list (map (\<lambda>r. r ! j) (rows a))) [0..<ncols a]"

text \<open>
  N-dimensional arrays, row-major, for the measurement record after reduction; the
  attribute \<^verbatim>\<open>measurements\<close> holds a list of lists until then.
\<close>

record 'a ndarray =
  shape :: "nat list"
  data :: "'a list"

datatype meas = Nested "complex list list" | Array "complex ndarray"

record ('op, 'q, 'e) traj_result =
  e_ops :: 'e
  res_options :: options
  times :: "real list"
  states :: "'q list"
  noise :: "array2 list"
  res_m_ops :: "'op list"
  res_dW_factor :: "real option list"
  measurements :: meas

text \<open>
  The constructor followed by \<^verbatim>\<open>_post_init\<close>. Modelled from the spec: the base
  class \<^verbatim>\<open>Result\<close> is not in this file; it starts with no recorded time and no
  recorded state.
\<close>

definition StochasticTrajResult ::
  "'e \<Rightarrow> options \<Rightarrow> 'op list \<Rightarrow> real option list \<Rightarrow> ('op, 'q, 'e) traj_result" where
  "StochasticTrajResult es opts ms dw =
     \<lparr>e_ops = es, res_options = opts, times = [], states = [], noise = [],
      res_m_ops = ms, res_dW_factor = dw, measurements = Nested (map (\<lambda>_. []) ms)\<rparr>"

text \<open>
  Modelled from the spec: \<^verbatim>\<open>Result.add\<close> of the base class, which is not in this
  file. It appends the pair of time and state to the ordered record.
\<close>

definition Result_add :: "('op, 'q, 'e) traj_result \<Rightarrow> real \<Rightarrow> 'q \<Rightarrow> ('op, 'q, 'e) traj_result" where
  "Result_add r t st = r\<lparr>times := times r @ [t], states := states r @ [st]\<rparr>"

text \<open>
  The loop over \<^verbatim>\<open>zip(self.measurements, expects, noises, self.dW_factor)\<close>: it
  stops with the shortest of the four, and a weight \<^verbatim>\<open>None\<close> makes the product
  \<^verbatim>\<open>dW * factor\<close> raise.
\<close>

fun append_measures ::
  "complex list list \<Rightarrow> complex list \<Rightarrow> real list \<Rightarrow> real option list \<Rightarrow> error + complex list list" where
  "append_measures (m # ms) (ex # es) (dW # dWs) (factor # fs) =
     (case factor of
        None \<Rightarrow> Inl (TypeError ''unsupported operand type(s) for *'')
      | Some w \<Rightarrow>
          (case append_measures ms es dWs fs of
             Inl e \<Rightarrow> Inl e
           | Inr ms' \<Rightarrow> Inr ((m @ [ex + of_real (dW * w)]) # ms')))"
| "append_measures ms es dWs fs = Inr ms"

text \<open>
  \<^verbatim>\<open>_add_measurement\<close>. The call to \<^verbatim>\<open>print\<close> writes to the standard output and
  is left out. Once the attribute holds an array, its rows have no \<^verbatim>\<open>append\<close>.
\<close>

definition add_measurement ::
  "('op \<Rightarrow> real \<Rightarrow> 'q \<Rightarrow> complex) \<Rightarrow> ('op, 'q, 'e) traj_result \<Rightarrow> real \<Rightarrow> 'q \<Rightarrow> array2 \<Rightarrow>
   error + ('op, 'q, 'e) traj_result" where
  "add_measurement expect r t state nz =
     (let expects = map (\<lambda>m_op. expect m_op t state) (res_m_ops r);
          noises = np_sum_axis0 nz
      in case measurements r of
           Nested ms \<Rightarrow>
             (case append_measures ms expects noises (res_dW_factor r) of
                Inl e \<Rightarrow> Inl e
              | Inr ms' \<Rightarrow> Inr (r\<lparr>measurements := Nested ms'\<rparr>))
         | Array a \<Rightarrow>
             (case shape a of
                [] \<Rightarrow> Inl (TypeError ''iteration over a 0-d array'')
              | n # _ \<Rightarrow>
                  if 0 < min n (min (length expects) (min (length noises) (length (res_dW_factor r))))
                  then Inl (AttributeError ''append'')
                  else Inr r))"

definition add ::
  "('op \<Rightarrow> real \<Rightarrow> 'q \<Rightarrow> complex) \<Rightarrow> ('op, 'q, 'e) traj_result \<Rightarrow> real \<Rightarrow> 'q \<Rightarrow> array2 option \<Rightarrow>
   error + ('op, 'q, 'e) traj_result" where
  "add expect r t state nz_opt =
     (let r1 = Result_add r t state
      in case nz_opt of
           None \<Rightarrow> Inr r1
         | Some nz \<Rightarrow>
             (let r2 = r1\<lparr>noise := noise r1 @ [nz]\<rparr>
              in if store_measurement (res_options r2) then
                   (if length (times r2) < 2 then Inl (IndexError ''list index out of range'')
                    else
                      (let dt = times r2 ! (length (times r2) - 1) - times r2 ! (length (times r2) - 2)
                       in add_measurement expect r2 t state (np_div nz dt)))
                 else Inr r2))"

subsection \<open>\<^verbatim>\<open>StochasticSolver._run_one_traj\<close>\<close>

text \<open>
  The collaborators of a run: \<^verbatim>\<open>_get_generator\<close>, \<^verbatim>\<open>_restore_state\<close>, the
  \<^verbatim>\<open>expect\<close> of an operator, and the integrator. The integrator is one object owned
  by the solver and shared by all its runs, so its internal state \<open>'i\<close> is passed in
  and returned; a step may fail.
\<close>

record ('op, 'q, 'd, 'g, 'seed, 'i) collab =
  get_generator :: "'seed \<Rightarrow> 'g"
  restore_state :: "'d \<Rightarrow> 'q"
  expect :: "'op \<Rightarrow> real \<Rightarrow> 'q \<Rightarrow> complex"
  set_state :: "'i \<Rightarrow> real \<Rightarrow> 'd \<Rightarrow> 'g \<Rightarrow> 'i"
  integrate :: "'i \<Rightarrow> real \<Rightarrow> error + ((real \<times> 'd \<times> array2 option) \<times> 'i)"

text \<open>The loop \<^verbatim>\<open>for t in tlist[1:]\<close>; the time recorded is the one the integrator returns.\<close>

fun traj_loop ::
  "('op, 'q, 'd, 'g, 'seed, 'i) collab \<Rightarrow> ('op, 'q, 'e) traj_result \<Rightarrow> 'i \<Rightarrow> real list \<Rightarrow>
   error + (('op, 'q, 'e) traj_result \<times> 'i)" where
  "traj_loop c r i [] = Inr (r, i)"
| "traj_loop c r i (t # ts) =
     (case integrate c i t of
        Inl e \<Rightarrow> Inl e
      | Inr ((t', state, nz), i') \<Rightarrow>
          (case add (expect c) r t' (restore_state c state) nz of
             Inl e \<Rightarrow> Inl e
           | Inr r' \<Rightarrow> traj_loop c r' i' ts))"

definition run_one_traj ::
  "('op, 'q, 'd, 'g, 'seed, 'i) collab \<Rightarrow> ('op, 'rhs) solver \<Rightarrow> 'i \<Rightarrow> 'seed \<Rightarrow> 'd \<Rightarrow> real list \<Rightarrow> 'e \<Rightarrow>
   error + (('seed \<times> ('op, 'q, 'e) traj_result) \<times> 'i)" where
  "run_one_traj c s i seed state tlist es =
     (let result = StochasticTrajResult es (options s) (m_ops s) (dW_factors s);
          generator = get_generator c seed
      in case tlist of
           [] \<Rightarrow> Inl (IndexError ''list index out of range'')
         | t0 # ts \<Rightarrow>
             (let i0 = set_state c i t0 state generator;
                  state_t = restore_state c state
              in case add (expect c) result t0 state_t None of
                   Inl e \<Rightarrow> Inl e
                 | Inr r0 \<Rightarrow>
                     (case traj_loop c r0 i0 ts of
                        Inl e \<Rightarrow> Inl e
                      | Inr (r, i') \<Rightarrow> Inr ((seed, r), i'))))"

text \<open>What the caller of a run sees: the error, or the pair of seed and result.\<close>

definition returned :: "error + ('a \<times> 'i) \<Rightarrow> error + 'a" where
  "returned x = (case x of Inl e \<Rightarrow> Inl e | Inr (a, i) \<Rightarrow> Inr a)"

subsection \<open>\<^verbatim>\<open>StochasticResult._reduce_expect\<close>\<close>

text \<open>
  \<^verbatim>\<open>np.array(x)\<close> on the measurement record: an array stays as it is, an empty list
  gives shape \<open>(0,)\<close>, a list of rows of one length \<open>c\<close> gives shape \<open>(r, c)\<close>; rows of
  different lengths are refused (NumPy 1.24 and later).
\<close>

fun np_array :: "meas \<Rightarrow> error + complex ndarray" where
  "np_array (Array a) = Inr a"
| "np_array (Nested []) = Inr \<lparr>shape = [0], data = []\<rparr>"
| "np_array (Nested (r # rs)) =
     (if list_all (\<lambda>x. length x = length r) rs
      then Inr \<lparr>shape = [Suc (length rs), length r], data = concat (r # rs)\<rparr>
      else Inl (ValueError ''inhomogeneous shape''))"

text \<open>
  \<^verbatim>\<open>a.reshape(-1, 2, c)\<close>: a new array over the same data; \<open>a\<close> itself keeps its
  shape. The free dimension must come out as a whole number.
\<close>

definition reshape_m1_2 :: "'a ndarray \<Rightarrow> nat \<Rightarrow> error + 'a ndarray" where
  "reshape_m1_2 a c =
     (if 2 * c = 0 then Inl (ValueError ''cannot reshape array'')
      else if length (data a) mod (2 * c) \<noteq> 0 then Inl (ValueError ''cannot reshape array'')
      else Inr \<lparr>shape = [length (data a) div (2 * c), 2, c], data = data a\<rparr>)"

record ensemble =
  ens_options :: options
  measurement :: "complex ndarray list"

text \<open>
  \<^verbatim>\<open>StochasticResult._post_init\<close>. Registering the reduction with
  \<^verbatim>\<open>add_processor\<close> belongs to the base class and is not modelled.
\<close>

definition StochasticResult_post_init :: "options \<Rightarrow> ensemble" where
  "StochasticResult_post_init opts = \<lparr>ens_options = opts, measurement = []\<rparr>"

text \<open>
  \<^verbatim>\<open>_reduce_expect\<close>: the trajectory's attribute is replaced by the array, the
  value of \<^verbatim>\<open>reshape\<close> is computed and not bound to anything, and the attribute is
  appended to the ensemble's list.
\<close>

definition reduce_expect ::
  "ensemble \<Rightarrow> ('op, 'q, 'e) traj_result \<Rightarrow> error + (ensemble \<times> ('op, 'q, 'e) traj_result)" where
  "reduce_expect ens trajectory =
     (case np_array (measurements trajectory) of
        Inl e \<Rightarrow> Inl e
      | Inr a \<Rightarrow>
          (let trajectory' = trajectory\<lparr>measurements := Array a\<rparr>;
               ens' = ens\<lparr>measurement := measurement ens @ [a]\<rparr>
           in if heterodyne (ens_options ens) then
                (case shape a of
                   [] \<Rightarrow> Inl (IndexError ''tuple index out of range'')
                 | _ # _ \<Rightarrow>
                     (case reshape_m1_2 a (last (shape a)) of
                        Inl e \<Rightarrow> Inl e
                      | Inr reshaped \<Rightarrow> Inr (ens', trajectory')))
              else Inr (ens', trajectory')))"

subsection \<open>The measurement record in closed form\<close>

text \<open>
  The value that channel \<open>k\<close> holds for step \<open>j\<close> (the step from the \<open>j\<close>-th to the
  next recorded time), read off the recorded times, states and noise; and the
  invariant of the trajectory loop: one noise array for each recorded time but the
  first, and every channel holding these values.
\<close>

definition measurement_entry ::
  "('op \<Rightarrow> real \<Rightarrow> 'q \<Rightarrow> complex) \<Rightarrow> 'op list \<Rightarrow> real option list \<Rightarrow> ('op, 'q, 'e) traj_result \<Rightarrow> nat \<Rightarrow> nat \<Rightarrow> complex" where
  "measurement_entry ex mops ws r k j =
     ex (mops ! k) (times r ! Suc j) (states r ! Suc j)
     + of_real (np_sum_axis0 (noise r ! j) ! k / (times r ! Suc j - times r ! j) * the (ws ! k))"

definition recorded ::
  "('op \<Rightarrow> real \<Rightarrow> 'q \<Rightarrow> complex) \<Rightarrow> 'op list \<Rightarrow> real option list \<Rightarrow> ('op, 'q, 'e) traj_result \<Rightarrow> bool" where
  "recorded ex mops ws r =
     (length (times r) = Suc (length (noise r)) \<and> length (states r) = length (times r) \<and>
      res_m_ops r = mops \<and> res_dW_factor r = ws \<and> store_measurement (res_options r) \<and>
      measurements r =
        Nested (map (\<lambda>k. map (measurement_entry ex mops ws r k) [0..<length (noise r)]) [0..<length mops]))"

subsection \<open>A one-dimensional instance\<close>

text \<open>
  Concrete collaborators, to evaluate the definitions: an operator is a complex number
  with a flag that marks a superoperator; the integrator counts its steps and reports
  two substeps on \<open>n\<close> noise channels.
\<close>

definition flagged_algebra :: "(bool \<times> complex) algebra" where
  "flagged_algebra =
     \<lparr>QobjEvo = (\<lambda>x. x),
      dag = (\<lambda>x. (fst x, cnj (snd x))),
      op_add = (\<lambda>x y. (fst x \<or> fst y, snd x + snd y)),
      op_sub = (\<lambda>x y. (fst x \<or> fst y, snd x - snd y)),
      op_scale = (\<lambda>z x. (fst x, z * snd x)),
      isoper = (\<lambda>x. \<not> fst x)\<rparr>"

definition plain_prep :: "(bool \<times> complex) \<Rightarrow> (bool \<times> complex) list \<Rightarrow> bool \<Rightarrow> error + unit" where
  "plain_prep H sc het = Inr ()"

definition counting_collab :: "nat \<Rightarrow> (bool \<times> complex, complex, complex, nat, nat, nat) collab" where
  "counting_collab n =
     \<lparr>get_generator = (\<lambda>seed. seed),
      restore_state = (\<lambda>d. d),
      expect = (\<lambda>m_op t q. snd m_op * q),
      set_state = (\<lambda>i t d g. g),
      integrate = (\<lambda>i t. Inr ((t, of_nat i,
                     Some \<lparr>ncols = n, rows = [replicate n (of_nat i), replicate n 1]\<rparr>), Suc i))\<rparr>"

text \<open>Two solvers over this instance, as the constructor builds them from \<open>sc_ops = [2]\<close>.\<close>

definition homodyne_solver :: "(bool \<times> complex, unit) solver" where
  "homodyne_solver =
     \<lparr>rhs = (), options = \<lparr>heterodyne = False, store_measurement = True, dW_factor = PyNone\<rparr>,
      m_ops = [(False, 4)], dW_factors = [Some 1]\<rparr>"

definition heterodyne_solver :: "(bool \<times> complex, unit) solver" where
  "heterodyne_solver =
     \<lparr>rhs = (), options = \<lparr>heterodyne = True, store_measurement = True, dW_factor = Scalar 1\<rparr>,
      m_ops = [(False, 4), (False, 0)], dW_factors = [Some 1, Some 1]\<rparr>"

text \<open>The trajectories these solvers record from seed \<open>0\<close> and initial state \<open>1\<close>.\<close>

definition homodyne_trajectory :: "(bool \<times> complex, complex, unit) traj_result" where
  "homodyne_trajectory =
     \<lparr>e_ops = (), res_options = \<lparr>heterodyne = False, store_measurement = True, dW_factor = PyNone\<rparr>,
      times = [0, 1, 3], states = [1, 0, 1],
      noise = [\<lparr>ncols = 1, rows = [[0], [1]]\<rparr>, \<lparr>ncols = 1, rows = [[1], [1]]\<rparr>],
      res_m_ops = [(False, 4)], res_dW_factor = [Some 1],
      measurements = Nested [[1, 5]]\<rparr>"

definition heterodyne_trajectory :: "(bool \<times> complex, complex, unit) traj_result" where
  "heterodyne_trajectory =
     \<lparr>e_ops = (), res_options = \<lparr>heterodyne = True, store_measurement = True, dW_factor = Scalar 1\<rparr>,
      times = [0, 1, 2], states = [1, 0, 1],
      noise = [\<lparr>ncols = 2, rows = [[0, 0], [1, 1]]\<rparr>, \<lparr>ncols = 2, rows = [[1, 1], [1, 1]]\<rparr>],
      res_m_ops = [(False, 4), (False, 0)], res_dW_factor = [Some 1, Some 1],
      measurements = Nested [[1, 6], [1, 2]]\<rparr>"

section \<open>Properties\<close>

subsection \<open>Lists built two entries at a time\<close>

lemma length_pairs: "length (concat (map (\<lambda>x. [f x, g x]) xs)) = 2 * length xs"
  by (induction xs) simp_all

lemma nth_pairs_even:
  "i < length xs \<Longrightarrow> concat (map (\<lambda>x. [f x, g x]) xs) ! (2 * i) = f (xs ! i)"
proof (induction xs arbitrary: i)
  case Nil then show ?case by simp
next
  case (Cons a xs)
  show ?case
  proof (cases i)
    case 0 then show ?thesis by simp
  next
    case (Suc j)
    with Cons.prems have "j < length xs" by simp
    from Cons.IH[OF this] Suc show ?thesis by simp
  qed
qed

lemma nth_pairs_odd:
  "i < length xs \<Longrightarrow> concat (map (\<lambda>x. [f x, g x]) xs) ! (2 * i + 1) = g (xs ! i)"
proof (induction xs arbitrary: i)
  case Nil then show ?case by simp
next
  case (Cons a xs)
  show ?case
  proof (cases i)
    case 0 then show ?thesis by simp
  next
    case (Suc j)
    with Cons.prems have "j < length xs" by simp
    from Cons.IH[OF this] Suc show ?thesis by simp
  qed
qed

lemma twice_pairs: "twice xs = concat (map (\<lambda>x. [x, x]) xs)"
  by (simp add: twice_def numeral_2_eq_2)

lemma twice_Nil: "twice [] = []" by (simp add: twice_def)

lemma length_twice: "length (twice xs) = 2 * length xs"
  by (simp add: twice_pairs length_pairs)

lemma twice_replicate: "twice (replicate n x) = replicate (2 * n) x"
  by (induction n) (simp_all add: twice_pairs)

lemma length_broadcast_scalar: "length (broadcast (Scalar w) n) = n" by simp

lemma n_m_ops_het: "heterodyne opts \<Longrightarrow> n_m_ops opts sc = 2 * length sc"
  by (simp add: n_m_ops_def)
lemma n_m_ops_hom: "\<not> heterodyne opts \<Longrightarrow> n_m_ops opts sc = length sc"
  by (simp add: n_m_ops_def)

lemma config_homodyne_default:
  assumes "\<not> heterodyne opts" "store_measurement opts" "dW_factor opts = PyNone"
    "length m_arg \<noteq> n_m_ops opts sc"
  shows "measurement_config alg opts sc m_arg =
      Inr (homodyne_m_ops alg sc, replicate (length sc) (Some 1))"
  using assms
  by (simp add: measurement_config_def resolve_dW_factor_def select_m_ops_def py_or_def n_m_ops_hom Let_def)

lemma config_heterodyne_default:
  assumes "heterodyne opts" "store_measurement opts" "dW_factor opts = PyNone"
    "length m_arg \<noteq> n_m_ops opts sc"
  shows "measurement_config alg opts sc m_arg =
      Inr (heterodyne_m_ops alg sc, replicate (2 * length sc) (Some (sqrt 2)))"
  using assms
  by (auto simp add: measurement_config_def resolve_dW_factor_def select_m_ops_def py_or_def n_m_ops_het Let_def twice_replicate length_twice twice_Nil)

lemma config_sequence_heterodyne:
  assumes "heterodyne opts" "store_measurement opts" "dW_factor opts = Sequence xs"
    "length xs = length sc"
  shows "\<exists>m. measurement_config alg opts sc m_arg = Inr (m, twice (map Some xs))"
  using assms
  by (auto simp add: measurement_config_def resolve_dW_factor_def select_m_ops_def py_or_def n_m_ops_het Let_def twice_replicate length_twice twice_Nil)

lemma config_disabled:
  "\<not> store_measurement opts \<Longrightarrow> measurement_config alg opts sc m_arg = Inr ([], [])"
  by (simp add: measurement_config_def)

lemma config_error_only:
  "measurement_config alg opts sc m_arg = Inl e \<Longrightarrow>
     e = ValueError ''Bad dW_factor option'' \<and> store_measurement opts \<and>
     length (resolve_dW_factor alg opts sc m_arg) \<noteq> n_m_ops opts sc"
  by (auto simp add: measurement_config_def Let_def split: if_splits)

lemma init_ok:
  assumes "\<not> list_ex (\<lambda>c. \<not> isoper alg c) (map (QobjEvo alg) (sc_list sc_ops))"
    and "prep (QobjEvo alg h) (map (QobjEvo alg) (sc_list sc_ops)) (heterodyne opts) = Inr r"
    and "measurement_config alg opts (map (QobjEvo alg) (sc_list sc_ops)) m_arg = Inr (m, d)"
  shows "StochasticSolver_init alg prep (Operator h) sc_ops opts m_arg =
     Inr \<lparr>rhs = r, options = opts, m_ops = m, dW_factors = d\<rparr>"
  using assms by (simp add: StochasticSolver_init_def Let_def)

lemma init_config_error:
  assumes "\<not> list_ex (\<lambda>c. \<not> isoper alg c) (map (QobjEvo alg) (sc_list sc_ops))"
    and "prep (QobjEvo alg h) (map (QobjEvo alg) (sc_list sc_ops)) (heterodyne opts) = Inr r"
    and "measurement_config alg opts (map (QobjEvo alg) (sc_list sc_ops)) m_arg = Inl e"
  shows "StochasticSolver_init alg prep (Operator h) sc_ops opts m_arg = Inl e"
  using assms by (simp add: StochasticSolver_init_def Let_def)


subsection \<open>One step of the measurement record\<close>

lemma sum_list_divide: "sum_list (map (\<lambda>r. f r / (dt::real)) rs) = sum_list (map f rs) / dt"
  by (induction rs) (simp_all add: add_divide_distrib)

lemma np_sum_div:
  assumes "wf_array2 a" "k < ncols a"
  shows "np_sum_axis0 (np_div a dt) ! k = np_sum_axis0 a ! k / dt"
proof -
  have "map (\<lambda>r. r ! k) (map (map (\<lambda>x. x / dt)) (rows a)) = map (\<lambda>r. r ! k / dt) (rows a)"
    unfolding map_map using assms
    by (intro map_cong) (auto simp: wf_array2_def list_all_iff)
  then have "sum_list (map (\<lambda>r. r ! k) (map (map (\<lambda>x. x / dt)) (rows a)))
      = sum_list (map (\<lambda>r. r ! k) (rows a)) / dt"
    by (simp only: sum_list_divide)
  then show ?thesis using assms(2)
    by (simp add: np_sum_axis0_def np_div_def del: map_map)
qed

lemma length_np_sum: "length (np_sum_axis0 a) = ncols a"
  by (simp add: np_sum_axis0_def)

lemma ncols_np_div: "ncols (np_div a dt) = ncols a"
  by (simp add: np_div_def)

lemma append_measures_all:
  "list_all (\<lambda>f. f \<noteq> None) fs \<Longrightarrow> length es = length ms \<Longrightarrow> length ds = length ms \<Longrightarrow>
   length fs = length ms \<Longrightarrow>
   append_measures ms es ds fs =
     Inr (map (\<lambda>k. ms ! k @ [es ! k + of_real (ds ! k * the (fs ! k))]) [0..<length ms])"
proof (induction ms es ds fs rule: append_measures.induct)
  case (1 m ms ex es dW dWs factor fs)
  then obtain w where w: "factor = Some w" by auto
  have IH: "append_measures ms es dWs fs =
     Inr (map (\<lambda>k. ms ! k @ [es ! k + of_real (dWs ! k * the (fs ! k))]) [0..<length ms])"
    using 1 w by simp
  have "map (\<lambda>k. (m # ms) ! k @ [(ex # es) ! k + of_real ((dW # dWs) ! k * the ((factor # fs) ! k))]) [0..<length (m # ms)]
      = (m @ [ex + of_real (dW * w)]) # map (\<lambda>k. ms ! k @ [es ! k + of_real (dWs ! k * the (fs ! k))]) [0..<length ms]"
    using w by (simp add: upt_rec[of 0] map_Suc_upt[symmetric] del: upt_Suc)
  then show ?case using IH w by simp
qed simp_all


lemma entry_extend:
  assumes "length (times r) = Suc (length (noise r))" "length (states r) = length (times r)"
    and "j < length (noise r)"
    and "times r' = times r @ [t]" "states r' = states r @ [q]" "noise r' = noise r @ [nz]"
  shows "measurement_entry ex mops ws r' k j = measurement_entry ex mops ws r k j"
  using assms by (simp add: measurement_entry_def nth_append)

lemma entry_last:
  assumes "length (times r) = Suc (length (noise r))" "length (states r) = length (times r)"
    and "times r' = times r @ [t]" "states r' = states r @ [q]" "noise r' = noise r @ [nz]"
  shows "measurement_entry ex mops ws r' k (length (noise r)) =
     ex (mops ! k) t q
     + of_real (np_sum_axis0 nz ! k / (t - times r ! length (noise r)) * the (ws ! k))"
  using assms by (simp add: measurement_entry_def nth_append)

lemma add_step:
  assumes inv: "recorded ex mops ws r"
    and nz: "wf_array2 nz" "ncols nz = length mops"
    and ws: "length ws = length mops" "list_all (\<lambda>f. f \<noteq> None) ws"
  shows "\<exists>r'. add ex r t q (Some nz) = Inr r' \<and> recorded ex mops ws r' \<and>
           times r' = times r @ [t] \<and> e_ops r' = e_ops r"
proof -
  let ?n = "length (noise r)"
  let ?ms = "map (\<lambda>k. map (measurement_entry ex mops ws r k) [0..<?n]) [0..<length mops]"
  let ?r2 = "(Result_add r t q)\<lparr>noise := noise (Result_add r t q) @ [nz]\<rparr>"
  let ?dt = "t - times r ! ?n"
  let ?es = "map (\<lambda>m_op. ex m_op t q) mops"
  let ?ds = "np_sum_axis0 (np_div nz ?dt)"
  let ?new = "map (\<lambda>k. ?ms ! k @ [?es ! k + of_real (?ds ! k * the (ws ! k))]) [0..<length ?ms]"
  let ?r' = "?r2\<lparr>measurements := Nested ?new\<rparr>"
  from inv have len: "length (times r) = Suc ?n" "length (states r) = length (times r)"
    and fields: "res_m_ops r = mops" "res_dW_factor r = ws" "store_measurement (res_options r)"
    and meas: "measurements r = Nested ?ms"
    by (simp_all add: recorded_def)
  have t2: "times ?r2 = times r @ [t]" and s2: "states ?r2 = states r @ [q]"
    and n2: "noise ?r2 = noise r @ [nz]"
    by (simp_all add: Result_add_def)
  have dt: "times ?r2 ! (length (times ?r2) - 1) - times ?r2 ! (length (times ?r2) - 2) = ?dt"
    using len by (simp add: t2 nth_append)
  have app: "append_measures ?ms ?es ?ds ws = Inr ?new"
    using append_measures_all[of ws ?es ?ms ?ds] ws nz
    by (simp add: length_np_sum ncols_np_div)
  have am: "add_measurement ex ?r2 t q (np_div nz ?dt) = Inr ?r'"
    using app fields meas by (simp add: add_measurement_def Result_add_def)
  have "\<not> length (times ?r2) < 2" using len by (simp add: t2)
  then have add: "add ex r t q (Some nz) = Inr ?r'"
    using am fields dt by (simp add: add_def Let_def Result_add_def)
  have row: "?ms ! k @ [?es ! k + of_real (?ds ! k * the (ws ! k))]
      = map (measurement_entry ex mops ws ?r' k) [0..<Suc ?n]" if k: "k < length mops" for k
  proof -
    have old: "map (measurement_entry ex mops ws ?r' k) [0..<?n] = ?ms ! k"
      using k len entry_extend[of r _ ?r' t q nz ex mops ws k]
      by (simp add: Result_add_def)
    have "?ds ! k = np_sum_axis0 nz ! k / ?dt"
      using np_sum_div[of nz k ?dt] nz k by simp
    then have last: "measurement_entry ex mops ws ?r' k ?n = ?es ! k + of_real (?ds ! k * the (ws ! k))"
      using k len entry_last[of r ?r' t q nz ex mops ws k]
      by (simp add: Result_add_def)
    show ?thesis using old last by simp
  qed
  have new: "?new = map (\<lambda>k. map (measurement_entry ex mops ws ?r' k) [0..<Suc ?n]) [0..<length mops]"
    using row by (intro nth_equalityI) (simp_all del: upt_Suc)
  have "recorded ex mops ws ?r'"
    unfolding recorded_def using len fields new
    by (simp add: Result_add_def del: upt_Suc)
  moreover have "times ?r' = times r @ [t]" "e_ops ?r' = e_ops r"
    by (simp_all add: Result_add_def)
  ultimately show ?thesis using add by blast
qed


lemma traj_loop_recorded:
  assumes contract: "\<forall>i t. \<exists>d nz i'. integrate c i t = Inr ((t, d, Some nz), i') \<and>
                        wf_array2 nz \<and> ncols nz = length mops"
    and ws: "length ws = length mops" "list_all (\<lambda>f. f \<noteq> None) ws"
  shows "recorded (expect c) mops ws r \<Longrightarrow>
     \<exists>r' i'. traj_loop c r i ts = Inr (r', i') \<and> recorded (expect c) mops ws r' \<and>
        times r' = times r @ ts \<and> e_ops r' = e_ops r"
proof (induction ts arbitrary: r i)
  case Nil
  then show ?case by simp
next
  case (Cons t ts)
  from contract obtain d nz i1 where
    step: "integrate c i t = Inr ((t, d, Some nz), i1)" and nz: "wf_array2 nz" "ncols nz = length mops"
    by blast
  from add_step[OF Cons.prems nz ws] obtain r1 where
    r1: "add (expect c) r t (restore_state c d) (Some nz) = Inr r1"
      "recorded (expect c) mops ws r1" "times r1 = times r @ [t]" "e_ops r1 = e_ops r"
    by blast
  from Cons.IH[OF r1(2)] obtain r' i' where
    "traj_loop c r1 i1 ts = Inr (r', i')" "recorded (expect c) mops ws r'"
    "times r' = times r1 @ ts" "e_ops r' = e_ops r1"
    by blast
  then show ?case using step r1 by simp
qed

lemma first_add:
  "add ex (StochasticTrajResult es opts mops ws) t0 q None =
     Inr (Result_add (StochasticTrajResult es opts mops ws) t0 q)"
  by (simp add: add_def)

lemma first_recorded:
  "store_measurement opts \<Longrightarrow>
   recorded ex mops ws (Result_add (StochasticTrajResult es opts mops ws) t0 q)"
  by (simp add: recorded_def Result_add_def StochasticTrajResult_def map_replicate_const)

lemma first_times: "times (Result_add (StochasticTrajResult es opts mops ws) t0 q) = [t0]"
  by (simp add: Result_add_def StochasticTrajResult_def)

subsection \<open>The measurement configuration\<close>

lemma heterodyne_m_ops_nth:
  "length (heterodyne_m_ops alg sc) = 2 * length sc"
  "i < length sc \<Longrightarrow> heterodyne_m_ops alg sc ! (2 * i) = op_add alg (sc ! i) (dag alg (sc ! i))"
  "i < length sc \<Longrightarrow> heterodyne_m_ops alg sc ! (2 * i + 1) = op_scale alg (- \<i>) (op_sub alg (sc ! i) (dag alg (sc ! i)))"
  "i < length sc \<Longrightarrow> heterodyne_m_ops alg sc ! Suc (2 * i) = op_scale alg (- \<i>) (op_sub alg (sc ! i) (dag alg (sc ! i)))"
  unfolding heterodyne_m_ops_def Suc_eq_plus1
  by (simp_all only: length_pairs nth_pairs_even nth_pairs_odd)

lemma twice_nth:
  "i < length xs \<Longrightarrow> twice xs ! (2 * i) = xs ! i"
  "i < length xs \<Longrightarrow> twice xs ! (2 * i + 1) = xs ! i"
  "i < length xs \<Longrightarrow> twice xs ! Suc (2 * i) = xs ! i"
  unfolding twice_pairs Suc_eq_plus1
  by (simp_all only: nth_pairs_even nth_pairs_odd)

lemma length_broadcast:
  "length (broadcast d n) = (case d of Sequence xs \<Rightarrow> length xs | _ \<Rightarrow> n)"
  by (cases d) simp_all

lemma mismatch_iff:
  "length (resolve_dW_factor alg opts sc m_arg) \<noteq> n_m_ops opts sc \<longleftrightarrow>
   (\<exists>xs. snd (select_m_ops alg opts sc m_arg) = Sequence xs \<and> length xs \<noteq> n_m_ops opts sc \<and>
         \<not> (heterodyne opts \<and> length xs = length sc))"
  by (cases "snd (select_m_ops alg opts sc m_arg)")
     (auto simp add: resolve_dW_factor_def Let_def length_twice n_m_ops_def)

lemma length_select_m_ops:
  "length (fst (select_m_ops alg opts sc m_arg)) = n_m_ops opts sc"
  by (simp add: select_m_ops_def heterodyne_m_ops_nth(1) homodyne_m_ops_def n_m_ops_def)

lemma config_lengths:
  "measurement_config alg opts sc m_arg = Inr (m, d) \<Longrightarrow> store_measurement opts \<Longrightarrow>
     length m = n_m_ops opts sc \<and> length d = n_m_ops opts sc"
  by (auto simp add: measurement_config_def Let_def length_select_m_ops split: if_splits)

lemma config_mismatch:
  "store_measurement opts \<Longrightarrow> length (resolve_dW_factor alg opts sc m_arg) \<noteq> n_m_ops opts sc \<Longrightarrow>
   measurement_config alg opts sc m_arg = Inl (ValueError ''Bad dW_factor option'')"
  by (simp add: measurement_config_def Let_def)

lemma config_scalar:
  assumes "store_measurement opts" "dW_factor opts = Scalar w"
    and "w \<noteq> 0 \<or> length m_arg = n_m_ops opts sc"
  shows "\<exists>m. measurement_config alg opts sc m_arg = Inr (m, replicate (n_m_ops opts sc) (Some w))"
  using assms
  by (auto simp add: measurement_config_def resolve_dW_factor_def select_m_ops_def py_or_def
      Let_def twice_replicate length_twice twice_Nil n_m_ops_def)

subsection \<open>Reduction and the instance\<close>

lemma reduce_expect_rows:
  assumes "reduce_expect ens tr = Inr (ens', tr')" "measurements tr = Nested (r # rs)"
  shows "measurement ens' =
           measurement ens @ [\<lparr>shape = [Suc (length rs), length r], data = concat (r # rs)\<rparr>]"
    and "measurements tr' = Array \<lparr>shape = [Suc (length rs), length r], data = concat (r # rs)\<rparr>"
  using assms
  by (auto simp add: reduce_expect_def Let_def split: sum.splits if_splits list.splits)

lemma solvers_built:
  "StochasticSolver_init flagged_algebra plain_prep (Operator (False, 1)) (Several [(False, 2)])
     \<lparr>heterodyne = False, store_measurement = True, dW_factor = PyNone\<rparr> [] = Inr homodyne_solver"
  "StochasticSolver_init flagged_algebra plain_prep (Operator (False, 1)) (Several [(False, 2)])
     \<lparr>heterodyne = True, store_measurement = True, dW_factor = Scalar 1\<rparr> [] = Inr heterodyne_solver"
  by (simp_all add: StochasticSolver_init_def measurement_config_def resolve_dW_factor_def
      select_m_ops_def py_or_def n_m_ops_def homodyne_m_ops_def heterodyne_m_ops_def
      flagged_algebra_def plain_prep_def homodyne_solver_def heterodyne_solver_def Let_def twice_def)

lemma homodyne_run:
  "run_one_traj (counting_collab 1) homodyne_solver i (0 :: nat) 1 [0, 1, 3] () =
     Inr ((0, homodyne_trajectory), 2)"
  by (simp add: run_one_traj_def counting_collab_def homodyne_solver_def StochasticTrajResult_def
      add_def Result_add_def add_measurement_def np_div_def np_sum_axis0_def Let_def
      homodyne_trajectory_def)

lemma heterodyne_run:
  "run_one_traj (counting_collab 2) heterodyne_solver i (0 :: nat) 1 [0, 1, 2] () =
     Inr ((0, heterodyne_trajectory), 2)"
  by (simp add: run_one_traj_def counting_collab_def heterodyne_solver_def StochasticTrajResult_def
      add_def Result_add_def add_measurement_def np_div_def np_sum_axis0_def Let_def
      numeral_2_eq_2 upt_rec heterodyne_trajectory_def)

section \<open>The claims\<close>

subsection \<open>C1: the measurement record of a trajectory\<close>

text \<open>
  Claim C1. A trajectory recorded with \<^verbatim>\<open>store_measurement\<close> over a time grid of
  length \<open>n \<ge> 2\<close> ends with \<open>n - 1\<close> entries in every measurement channel, none for the
  initial point, and the entry of channel \<open>k\<close> for the step to the time \<open>t\<close> is
  \<^verbatim>\<open>m_ops[k].expect(t, state)\<close> plus the \<open>k\<close>-th column sum of the step's noise,
  divided by the difference \<open>dt\<close> of the last two recorded times and multiplied by the
  weight of the channel.

  The theorem takes what the integrator and the constructor promise: every step
  returns the requested time, a state and a noise array with one column for each
  channel; the weights are numbers, one for each channel; the grid increases
  strictly. The run then returns, and its record is the one claimed. The code divides
  the noise by \<open>dt\<close> before it sums the substeps; \<open>np_sum_div\<close> shows that this is the
  sum divided by \<open>dt\<close>.
\<close>

theorem measurement_record:
  assumes contract: "\<forall>i t. \<exists>d nz i'. integrate c i t = Inr ((t, d, Some nz), i') \<and>
                        wf_array2 nz \<and> ncols nz = length (m_ops s)"
    and store: "store_measurement (options s)"
    and ws: "length (dW_factors s) = length (m_ops s)" "list_all (\<lambda>f. f \<noteq> None) (dW_factors s)"
    and grid: "2 \<le> length tlist" "sorted_wrt (<) tlist"
  shows "\<exists>res i' ms.
     run_one_traj c s i seed state tlist es = Inr ((seed, res), i') \<and>
     times res = tlist \<and> length (states res) = length tlist \<and>
     length (noise res) = length tlist - 1 \<and>
     measurements res = Nested ms \<and> length ms = length (m_ops s) \<and>
     (\<forall>k < length (m_ops s).
        length (ms ! k) = length tlist - 1 \<and>
        (\<forall>j < length tlist - 1.
           ms ! k ! j =
             expect c (m_ops s ! k) (tlist ! Suc j) (states res ! Suc j)
             + of_real (np_sum_axis0 (noise res ! j) ! k / (tlist ! Suc j - tlist ! j)
                        * the (dW_factors s ! k))))"
proof -
  from grid obtain t0 ts where tl: "tlist = t0 # ts" by (cases tlist) auto
  let ?r0 = "Result_add (StochasticTrajResult es (options s) (m_ops s) (dW_factors s)) t0 (restore_state c state)"
  let ?i0 = "set_state c i t0 state (get_generator c seed)"
  have r0: "recorded (expect c) (m_ops s) (dW_factors s) ?r0"
    using store by (rule first_recorded)
  from traj_loop_recorded[OF contract ws r0, of ?i0 ts] obtain res i' where
    loop: "traj_loop c ?r0 ?i0 ts = Inr (res, i')"
    and rec: "recorded (expect c) (m_ops s) (dW_factors s) res"
    and tm: "times res = times ?r0 @ ts"
    by blast
  have run: "run_one_traj c s i seed state tlist es = Inr ((seed, res), i')"
    using loop by (simp add: run_one_traj_def tl Let_def first_add)
  have times: "times res = tlist" using tm tl by (simp add: first_times)
  let ?ms = "map (\<lambda>k. map (measurement_entry (expect c) (m_ops s) (dW_factors s) res k)
                 [0..<length (noise res)]) [0..<length (m_ops s)]"
  from rec have len: "length (times res) = Suc (length (noise res))"
      "length (states res) = length (times res)" and meas: "measurements res = Nested ?ms"
    by (simp_all add: recorded_def)
  have n: "length (noise res) = length tlist - 1" using len times by simp
  have "\<forall>k < length (m_ops s).
        length (?ms ! k) = length tlist - 1 \<and>
        (\<forall>j < length tlist - 1.
           ?ms ! k ! j =
             expect c (m_ops s ! k) (tlist ! Suc j) (states res ! Suc j)
             + of_real (np_sum_axis0 (noise res ! j) ! k / (tlist ! Suc j - tlist ! j)
                        * the (dW_factors s ! k)))"
    using n times by (simp add: measurement_entry_def)
  then show ?thesis using run times len n meas
    by (intro exI[of _ res] exI[of _ i'] exI[of _ ?ms]) simp
qed

theorem measurement_record_witness:
  "(\<forall>i t. \<exists>d nz i'. integrate (counting_collab 1) i t = Inr ((t, d, Some nz), i') \<and>
       wf_array2 nz \<and> ncols nz = length (m_ops homodyne_solver)) \<and>
   store_measurement (options homodyne_solver) \<and>
   length (dW_factors homodyne_solver) = length (m_ops homodyne_solver) \<and>
   list_all (\<lambda>f. f \<noteq> None) (dW_factors homodyne_solver) \<and>
   2 \<le> length [0, 1, 3 :: real] \<and> sorted_wrt (<) [0, 1, 3 :: real] \<and>
   (\<exists>res i' ms.
      run_one_traj (counting_collab 1) homodyne_solver (7 :: nat) (0 :: nat) 1 [0, 1, 3] () =
        Inr ((0, res), i') \<and>
      times res = [0, 1, 3] \<and> measurements res = Nested ms \<and> length ms = 1 \<and>
      length (ms ! 0) = 2 \<and>
      ms ! 0 ! 1 = expect (counting_collab 1) (False, 4) 3 (states res ! 2)
                   + of_real (np_sum_axis0 (noise res ! 1) ! 0 / (3 - 1) * 1))"
proof -
  have h1: "\<forall>i t. \<exists>d nz i'. integrate (counting_collab 1) i t = Inr ((t, d, Some nz), i') \<and>
       wf_array2 nz \<and> ncols nz = length (m_ops homodyne_solver)"
    by (simp add: counting_collab_def wf_array2_def homodyne_solver_def)
  have h2: "store_measurement (options homodyne_solver)"
    and h3: "length (dW_factors homodyne_solver) = length (m_ops homodyne_solver)"
    and h4: "list_all (\<lambda>f. f \<noteq> None) (dW_factors homodyne_solver)"
    by (simp_all add: homodyne_solver_def)
  have h5: "2 \<le> length [0, 1, 3 :: real]" and h6: "sorted_wrt (<) [0, 1, 3 :: real]"
    by simp_all
  from measurement_record[OF h1 h2 h3 h4 h5 h6, where i = 7 and seed = 0 and state = 1 and es = "()"]
  obtain res i' ms where
    run: "run_one_traj (counting_collab 1) homodyne_solver (7 :: nat) (0 :: nat) 1 [0, 1, 3] () = Inr ((0, res), i')"
    and tm: "times res = [0, 1, 3]" and ms: "measurements res = Nested ms"
    and len: "length ms = length (m_ops homodyne_solver)"
    and entries: "\<forall>k < length (m_ops homodyne_solver).
        length (ms ! k) = length [0, 1, 3 :: real] - 1 \<and>
        (\<forall>j < length [0, 1, 3 :: real] - 1.
           ms ! k ! j =
             expect (counting_collab 1) (m_ops homodyne_solver ! k) ([0, 1, 3] ! Suc j) (states res ! Suc j)
             + of_real (np_sum_axis0 (noise res ! j) ! k / ([0, 1, 3] ! Suc j - [0, 1, 3] ! j)
                        * the (dW_factors homodyne_solver ! k)))"
    by blast
  from entries have e0: "length (ms ! 0) = 2"
    by (simp add: homodyne_solver_def)
  from entries have "\<forall>j < 2. ms ! 0 ! j =
             expect (counting_collab 1) (False, 4) ([0, 1, 3] ! Suc j) (states res ! Suc j)
             + of_real (np_sum_axis0 (noise res ! j) ! 0 / ([0, 1, 3] ! Suc j - [0, 1, 3] ! j) * 1)"
    by (simp add: homodyne_solver_def)
  then have e1: "ms ! 0 ! 1 = expect (counting_collab 1) (False, 4) 3 (states res ! 2)
                   + of_real (np_sum_axis0 (noise res ! 1) ! 0 / (3 - 1) * 1)"
    by (simp add: numeral_2_eq_2)
  have l1: "length ms = 1" using len by (simp add: homodyne_solver_def)
  show ?thesis using h1 h2 h3 h4 h5 h6 run tm ms l1 e0 e1 by blast
qed

subsection \<open>C2: the default configuration under heterodyne detection\<close>

text \<open>
  Claim C2. With \<^verbatim>\<open>heterodyne\<close> and \<^verbatim>\<open>store_measurement\<close> set, no \<^verbatim>\<open>m_ops\<close>
  of the matching length and no \<^verbatim>\<open>dW_factor\<close>, a list of \<open>k\<close> collapse operators
  gives \<open>2k\<close> measurement operators: \<open>op + op\<^sup>\<dagger>\<close> and \<open>-i (op - op\<^sup>\<dagger>\<close>) for each
  operator, in the order of the input; and every weight is the square root of two.
  The collapse operators are the ones the constructor works on, after
  \<^verbatim>\<open>QobjEvo\<close>; the power \<^verbatim>\<open>2**0.5\<close> is taken as the real number \<open>sqrt 2\<close>.
\<close>

theorem heterodyne_default:
  assumes het: "heterodyne opts" and store: "store_measurement opts"
    and absent: "dW_factor opts = PyNone"
    and sc: "sc = map (QobjEvo alg) (sc_list sc_ops)"
    and no_m: "length m_arg \<noteq> n_m_ops opts sc"
    and opers: "\<not> list_ex (\<lambda>c. \<not> isoper alg c) sc"
    and prep: "prep (QobjEvo alg h) sc (heterodyne opts) = Inr r"
  shows "\<exists>s. StochasticSolver_init alg prep (Operator h) sc_ops opts m_arg = Inr s \<and>
           length (m_ops s) = 2 * length sc \<and>
           (\<forall>i < length sc.
               m_ops s ! (2 * i) = op_add alg (sc ! i) (dag alg (sc ! i)) \<and>
               m_ops s ! (2 * i + 1) = op_scale alg (- \<i>) (op_sub alg (sc ! i) (dag alg (sc ! i)))) \<and>
           dW_factors s = replicate (2 * length sc) (Some (sqrt 2))"
proof -
  have "measurement_config alg opts sc m_arg =
      Inr (heterodyne_m_ops alg sc, replicate (2 * length sc) (Some (sqrt 2)))"
    using het store absent no_m by (rule config_heterodyne_default)
  then have "StochasticSolver_init alg prep (Operator h) sc_ops opts m_arg =
     Inr \<lparr>rhs = r, options = opts, m_ops = heterodyne_m_ops alg sc,
          dW_factors = replicate (2 * length sc) (Some (sqrt 2))\<rparr>"
    using init_ok[of alg sc_ops prep h opts r] opers prep sc by simp
  then show ?thesis by (simp add: heterodyne_m_ops_nth)
qed

theorem heterodyne_default_witness:
  "heterodyne \<lparr>heterodyne = True, store_measurement = True, dW_factor = PyNone\<rparr> \<and>
   store_measurement \<lparr>heterodyne = True, store_measurement = True, dW_factor = PyNone\<rparr> \<and>
   dW_factor \<lparr>heterodyne = True, store_measurement = True, dW_factor = PyNone\<rparr> = PyNone \<and>
   [(False, 2 + \<i>)] = map (QobjEvo flagged_algebra) (sc_list (Several [(False, 2 + \<i>)])) \<and>
   length ([] :: (bool \<times> complex) list) \<noteq>
     n_m_ops \<lparr>heterodyne = True, store_measurement = True, dW_factor = PyNone\<rparr> [(False, 2 + \<i>)] \<and>
   \<not> list_ex (\<lambda>c. \<not> isoper flagged_algebra c) [(False, 2 + \<i>)] \<and>
   plain_prep (QobjEvo flagged_algebra (False, 1)) [(False, 2 + \<i>)] True = Inr () \<and>
   (\<exists>s. StochasticSolver_init flagged_algebra plain_prep (Operator (False, 1))
           (Several [(False, 2 + \<i>)])
           \<lparr>heterodyne = True, store_measurement = True, dW_factor = PyNone\<rparr> [] = Inr s \<and>
        m_ops s = [(False, 4), (False, 2)] \<and>
        dW_factors s = [Some (sqrt 2), Some (sqrt 2)])"
proof -
  let ?opts = "\<lparr>heterodyne = True, store_measurement = True, dW_factor = PyNone\<rparr>"
  let ?sc = "[(False, 2 + \<i>)] :: (bool \<times> complex) list"
  have h1: "heterodyne ?opts" and h2: "store_measurement ?opts" and h3: "dW_factor ?opts = PyNone"
    by simp_all
  have h4: "?sc = map (QobjEvo flagged_algebra) (sc_list (Several ?sc))"
    by (simp add: flagged_algebra_def)
  have h5: "length ([] :: (bool \<times> complex) list) \<noteq> n_m_ops ?opts ?sc"
    by (simp add: n_m_ops_def)
  have h6: "\<not> list_ex (\<lambda>c. \<not> isoper flagged_algebra c) ?sc"
    by (simp add: flagged_algebra_def)
  have h7: "plain_prep (QobjEvo flagged_algebra (False, 1)) ?sc (heterodyne ?opts) = Inr ()"
    by (simp add: plain_prep_def)
  from heterodyne_default[where opts = ?opts and alg = flagged_algebra and sc = ?sc
      and sc_ops = "Several ?sc" and m_arg = "[]" and prep = plain_prep and h = "(False, 1)"
      and r = "()", OF h1 h2 h3 h4 h5 h6 h7]
  obtain s where
    s: "StochasticSolver_init flagged_algebra plain_prep (Operator (False, 1)) (Several ?sc) ?opts [] = Inr s"
    and len: "length (m_ops s) = 2 * length ?sc"
    and nth: "\<forall>i < length ?sc.
               m_ops s ! (2 * i) = op_add flagged_algebra (?sc ! i) (dag flagged_algebra (?sc ! i)) \<and>
               m_ops s ! (2 * i + 1) =
                 op_scale flagged_algebra (- \<i>) (op_sub flagged_algebra (?sc ! i) (dag flagged_algebra (?sc ! i)))"
    and w: "dW_factors s = replicate (2 * length ?sc) (Some (sqrt 2))"
    by blast
  from nth have n0: "m_ops s ! 0 = (False, 4)" and n1: "m_ops s ! 1 = (False, 2)"
    by (simp_all add: flagged_algebra_def complex_eq_iff)
  have m: "m_ops s = [(False, 4), (False, 2)]"
    using len n0 n1 by (intro nth_equalityI) (auto simp add: less_Suc_eq numeral_2_eq_2)
  have w': "dW_factors s = [Some (sqrt 2), Some (sqrt 2)]"
    using w by (simp add: numeral_2_eq_2)
  show ?thesis using h1 h2 h3 h4 h5 h6 h7 s m w' by auto
qed

subsection \<open>C3: the default configuration under homodyne detection\<close>

text \<open>
  Claim C3. With \<^verbatim>\<open>heterodyne\<close> off, \<^verbatim>\<open>store_measurement\<close> set, no \<^verbatim>\<open>m_ops\<close>
  of the matching length and no \<^verbatim>\<open>dW_factor\<close>, a list of \<open>k\<close> collapse operators
  gives \<open>k\<close> measurement operators, the \<open>i\<close>-th being \<open>op\<^sub>i + op\<^sub>i\<^sup>\<dagger>\<close>, and every
  weight is one.
\<close>

theorem homodyne_default:
  assumes hom: "\<not> heterodyne opts" and store: "store_measurement opts"
    and absent: "dW_factor opts = PyNone"
    and sc: "sc = map (QobjEvo alg) (sc_list sc_ops)"
    and no_m: "length m_arg \<noteq> n_m_ops opts sc"
    and opers: "\<not> list_ex (\<lambda>c. \<not> isoper alg c) sc"
    and prep: "prep (QobjEvo alg h) sc (heterodyne opts) = Inr r"
  shows "\<exists>s. StochasticSolver_init alg prep (Operator h) sc_ops opts m_arg = Inr s \<and>
           length (m_ops s) = length sc \<and>
           (\<forall>i < length sc. m_ops s ! i = op_add alg (sc ! i) (dag alg (sc ! i))) \<and>
           dW_factors s = replicate (length sc) (Some 1)"
proof -
  have "measurement_config alg opts sc m_arg =
      Inr (homodyne_m_ops alg sc, replicate (length sc) (Some 1))"
    using hom store absent no_m by (rule config_homodyne_default)
  then have "StochasticSolver_init alg prep (Operator h) sc_ops opts m_arg =
     Inr \<lparr>rhs = r, options = opts, m_ops = homodyne_m_ops alg sc,
          dW_factors = replicate (length sc) (Some 1)\<rparr>"
    using init_ok[of alg sc_ops prep h opts r] opers prep sc by simp
  then show ?thesis by (simp add: homodyne_m_ops_def)
qed

theorem homodyne_default_witness:
  "\<not> heterodyne \<lparr>heterodyne = False, store_measurement = True, dW_factor = PyNone\<rparr> \<and>
   store_measurement \<lparr>heterodyne = False, store_measurement = True, dW_factor = PyNone\<rparr> \<and>
   dW_factor \<lparr>heterodyne = False, store_measurement = True, dW_factor = PyNone\<rparr> = PyNone \<and>
   [(False, 2 + \<i>), (False, 3)] =
     map (QobjEvo flagged_algebra) (sc_list (Several [(False, 2 + \<i>), (False, 3)])) \<and>
   length ([] :: (bool \<times> complex) list) \<noteq>
     n_m_ops \<lparr>heterodyne = False, store_measurement = True, dW_factor = PyNone\<rparr>
       [(False, 2 + \<i>), (False, 3)] \<and>
   \<not> list_ex (\<lambda>c. \<not> isoper flagged_algebra c) [(False, 2 + \<i>), (False, 3)] \<and>
   plain_prep (QobjEvo flagged_algebra (False, 1)) [(False, 2 + \<i>), (False, 3)] False = Inr () \<and>
   (\<exists>s. StochasticSolver_init flagged_algebra plain_prep (Operator (False, 1))
           (Several [(False, 2 + \<i>), (False, 3)])
           \<lparr>heterodyne = False, store_measurement = True, dW_factor = PyNone\<rparr> [] = Inr s \<and>
        m_ops s = [(False, 4), (False, 6)] \<and>
        dW_factors s = [Some 1, Some 1])"
proof -
  let ?opts = "\<lparr>heterodyne = False, store_measurement = True, dW_factor = PyNone\<rparr>"
  let ?sc = "[(False, 2 + \<i>), (False, 3)] :: (bool \<times> complex) list"
  have h1: "\<not> heterodyne ?opts" and h2: "store_measurement ?opts" and h3: "dW_factor ?opts = PyNone"
    by simp_all
  have h4: "?sc = map (QobjEvo flagged_algebra) (sc_list (Several ?sc))"
    by (simp add: flagged_algebra_def)
  have h5: "length ([] :: (bool \<times> complex) list) \<noteq> n_m_ops ?opts ?sc"
    by (simp add: n_m_ops_def)
  have h6: "\<not> list_ex (\<lambda>c. \<not> isoper flagged_algebra c) ?sc"
    by (simp add: flagged_algebra_def)
  have h7: "plain_prep (QobjEvo flagged_algebra (False, 1)) ?sc (heterodyne ?opts) = Inr ()"
    by (simp add: plain_prep_def)
  from homodyne_default[where opts = ?opts and alg = flagged_algebra and sc = ?sc
      and sc_ops = "Several ?sc" and m_arg = "[]" and prep = plain_prep and h = "(False, 1)"
      and r = "()", OF h1 h2 h3 h4 h5 h6 h7]
  obtain s where
    s: "StochasticSolver_init flagged_algebra plain_prep (Operator (False, 1)) (Several ?sc) ?opts [] = Inr s"
    and len: "length (m_ops s) = length ?sc"
    and nth: "\<forall>i < length ?sc.
               m_ops s ! i = op_add flagged_algebra (?sc ! i) (dag flagged_algebra (?sc ! i))"
    and w: "dW_factors s = replicate (length ?sc) (Some 1)"
    by blast
  from nth have n0: "m_ops s ! 0 = (False, 4)" and n1: "m_ops s ! 1 = (False, 6)"
    by (simp_all add: flagged_algebra_def complex_eq_iff)
  have m: "m_ops s = [(False, 4), (False, 6)]"
    using len n0 n1 by (intro nth_equalityI) (auto simp add: less_Suc_eq numeral_2_eq_2)
  have w': "dW_factors s = [Some 1, Some 1]"
    using w by (simp add: numeral_2_eq_2)
  show ?thesis using h1 h2 h3 h4 h5 h6 h7 s m w' by auto
qed

subsection \<open>C4: a scalar weight\<close>

text \<open>
  Claim C4. A scalar \<^verbatim>\<open>dW_factor = w\<close> given with \<^verbatim>\<open>store_measurement\<close> resolves
  to \<open>w\<close> repeated once for each channel, with and without \<^verbatim>\<open>heterodyne\<close>.

  The code keeps the claim for every \<open>w\<close> but zero (\<open>config_scalar\<close>). When the
  measurement operators are derived, the weight goes through
  \<^verbatim>\<open>dW_factor or 1.\<close>, which takes the number zero for an absent value: one collapse
  operator, no \<^verbatim>\<open>m_ops\<close> and \<open>w = 0\<close> give the weight one. With \<^verbatim>\<open>m_ops\<close> of the
  matching length the same zero is kept.
\<close>

theorem zero_scalar_replaced:
  "StochasticSolver_init flagged_algebra plain_prep (Operator (False, 1)) (Several [(False, 2)])
     \<lparr>heterodyne = False, store_measurement = True, dW_factor = Scalar 0\<rparr> [] =
   Inr \<lparr>rhs = (),
        options = \<lparr>heterodyne = False, store_measurement = True, dW_factor = Scalar 0\<rparr>,
        m_ops = [(False, 4)], dW_factors = [Some 1]\<rparr>"
  by (simp add: StochasticSolver_init_def measurement_config_def resolve_dW_factor_def
      select_m_ops_def py_or_def n_m_ops_def homodyne_m_ops_def flagged_algebra_def plain_prep_def
      Let_def)

subsection \<open>C5: one weight for each collapse operator under heterodyne detection\<close>

text \<open>
  Claim C5. Under \<^verbatim>\<open>heterodyne\<close> with \<^verbatim>\<open>store_measurement\<close>, a sequence
  \<^verbatim>\<open>dW_factor\<close> with one entry for each collapse operator resolves to a sequence of
  twice the length, whose entries \<open>2i\<close> and \<open>2i + 1\<close> both are the \<open>i\<close>-th entry given.
  This holds whatever \<^verbatim>\<open>m_ops\<close> the caller passes.
\<close>

theorem sequence_heterodyne:
  assumes het: "heterodyne opts" and store: "store_measurement opts"
    and given: "dW_factor opts = Sequence xs"
    and sc: "sc = map (QobjEvo alg) (sc_list sc_ops)"
    and len: "length xs = length sc"
    and opers: "\<not> list_ex (\<lambda>c. \<not> isoper alg c) sc"
    and prep: "prep (QobjEvo alg h) sc (heterodyne opts) = Inr r"
  shows "\<exists>s. StochasticSolver_init alg prep (Operator h) sc_ops opts m_arg = Inr s \<and>
           length (dW_factors s) = 2 * length sc \<and>
           (\<forall>i < length sc.
               dW_factors s ! (2 * i) = Some (xs ! i) \<and>
               dW_factors s ! (2 * i + 1) = Some (xs ! i))"
proof -
  obtain m where "measurement_config alg opts sc m_arg = Inr (m, twice (map Some xs))"
    using config_sequence_heterodyne[OF het store given len] by blast
  then have "StochasticSolver_init alg prep (Operator h) sc_ops opts m_arg =
     Inr \<lparr>rhs = r, options = opts, m_ops = m, dW_factors = twice (map Some xs)\<rparr>"
    using init_ok[of alg sc_ops prep h opts r] opers prep sc by simp
  then show ?thesis using len by (simp add: length_twice twice_nth)
qed

theorem sequence_heterodyne_witness:
  "heterodyne \<lparr>heterodyne = True, store_measurement = True, dW_factor = Sequence [3, 5]\<rparr> \<and>
   store_measurement \<lparr>heterodyne = True, store_measurement = True, dW_factor = Sequence [3, 5]\<rparr> \<and>
   dW_factor \<lparr>heterodyne = True, store_measurement = True, dW_factor = Sequence [3, 5]\<rparr> =
     Sequence [3, 5] \<and>
   [(False, 2 + \<i>), (False, 3)] =
     map (QobjEvo flagged_algebra) (sc_list (Several [(False, 2 + \<i>), (False, 3)])) \<and>
   length [3, 5 :: real] = length [(False, 2 + \<i>), (False, 3 :: complex)] \<and>
   \<not> list_ex (\<lambda>c. \<not> isoper flagged_algebra c) [(False, 2 + \<i>), (False, 3)] \<and>
   plain_prep (QobjEvo flagged_algebra (False, 1)) [(False, 2 + \<i>), (False, 3)] True = Inr () \<and>
   (\<exists>s. StochasticSolver_init flagged_algebra plain_prep (Operator (False, 1))
           (Several [(False, 2 + \<i>), (False, 3)])
           \<lparr>heterodyne = True, store_measurement = True, dW_factor = Sequence [3, 5]\<rparr> [] = Inr s \<and>
        length (dW_factors s) = 4 \<and>
        dW_factors s ! 0 = Some 3 \<and> dW_factors s ! 1 = Some 3 \<and>
        dW_factors s ! 2 = Some 5 \<and> dW_factors s ! 3 = Some 5)"
proof -
  let ?opts = "\<lparr>heterodyne = True, store_measurement = True, dW_factor = Sequence [3, 5]\<rparr>"
  let ?sc = "[(False, 2 + \<i>), (False, 3)] :: (bool \<times> complex) list"
  have h1: "heterodyne ?opts" and h2: "store_measurement ?opts"
    and h3: "dW_factor ?opts = Sequence [3, 5]"
    by simp_all
  have h4: "?sc = map (QobjEvo flagged_algebra) (sc_list (Several ?sc))"
    by (simp add: flagged_algebra_def)
  have h5: "length [3, 5 :: real] = length ?sc"
    by simp
  have h6: "\<not> list_ex (\<lambda>c. \<not> isoper flagged_algebra c) ?sc"
    by (simp add: flagged_algebra_def)
  have h7: "plain_prep (QobjEvo flagged_algebra (False, 1)) ?sc (heterodyne ?opts) = Inr ()"
    by (simp add: plain_prep_def)
  from sequence_heterodyne[where opts = ?opts and alg = flagged_algebra and sc = ?sc
      and sc_ops = "Several ?sc" and m_arg = "[]" and prep = plain_prep and h = "(False, 1)"
      and r = "()" and xs = "[3, 5]", OF h1 h2 h3 h4 h5 h6 h7]
  obtain s where
    s: "StochasticSolver_init flagged_algebra plain_prep (Operator (False, 1)) (Several ?sc) ?opts [] = Inr s"
    and len: "length (dW_factors s) = 2 * length ?sc"
    and nth: "\<forall>i < length ?sc.
               dW_factors s ! (2 * i) = Some ([3, 5] ! i) \<and>
               dW_factors s ! (2 * i + 1) = Some ([3, 5] ! i)"
    by blast
  have i0: "0 < length ?sc" and i1: "1 < length ?sc"
    by simp_all
  from nth[rule_format, OF i0] have n0: "dW_factors s ! 0 = Some 3" and n1: "dW_factors s ! 1 = Some 3"
    by simp_all
  from nth[rule_format, OF i1] have n2: "dW_factors s ! 2 = Some 5" and n3: "dW_factors s ! 3 = Some 5"
    by (simp_all add: numeral_3_eq_3)
  have l: "length (dW_factors s) = 4" using len by simp
  show ?thesis using h1 h2 h3 h4 h5 h6 h7 s l n0 n1 n2 n3 by auto
qed

subsection \<open>C6: a weight sequence of the wrong length\<close>

text \<open>
  Claim C6. When the weight sequence, after the broadcasting rules, has a length other
  than the number of channels, the construction of the solver fails with the
  configuration error, at construction and not during a trajectory; no solver is
  returned; and this mismatch is the only failure of the measurement configuration.

  The constructor tests the length inside the block guarded by
  \<^verbatim>\<open>store_measurement\<close>, so the claim holds with that option set, as follows. The
  resolved sequence is \<open>resolve_dW_factor\<close>, the list whose length the constructor
  tests. With \<^verbatim>\<open>store_measurement\<close> set and the earlier stages of the constructor
  passed: a mismatch gives the error \<^verbatim>\<open>ValueError\<close> in place of a solver; every
  error of the constructor is this one and comes from a mismatch; and every solver
  that is returned has one measurement operator and one weight for each channel, so
  that no run meets a mismatch. By \<open>mismatch_iff\<close> the mismatch occurs only for a
  sequence whose length is neither the number of channels nor, under
  \<^verbatim>\<open>heterodyne\<close>, the number of collapse operators.
\<close>

theorem length_mismatch_rejected:
  assumes store: "store_measurement opts"
    and sc: "sc = map (QobjEvo alg) (sc_list sc_ops)"
    and opers: "\<not> list_ex (\<lambda>c. \<not> isoper alg c) sc"
    and prep: "prep (QobjEvo alg h) sc (heterodyne opts) = Inr r"
  shows "(length (resolve_dW_factor alg opts sc m_arg) \<noteq> n_m_ops opts sc \<longrightarrow>
            StochasticSolver_init alg prep (Operator h) sc_ops opts m_arg =
              Inl (ValueError ''Bad dW_factor option'')) \<and>
         (\<forall>e. StochasticSolver_init alg prep (Operator h) sc_ops opts m_arg = Inl e \<longrightarrow>
            e = ValueError ''Bad dW_factor option'' \<and>
            length (resolve_dW_factor alg opts sc m_arg) \<noteq> n_m_ops opts sc) \<and>
         (\<forall>s. StochasticSolver_init alg prep (Operator h) sc_ops opts m_arg = Inr s \<longrightarrow>
            length (m_ops s) = n_m_ops opts sc \<and> length (dW_factors s) = n_m_ops opts sc)"
proof (intro conjI impI allI)
  assume "length (resolve_dW_factor alg opts sc m_arg) \<noteq> n_m_ops opts sc"
  then have "measurement_config alg opts sc m_arg = Inl (ValueError ''Bad dW_factor option'')"
    using store by (simp add: config_mismatch)
  then show "StochasticSolver_init alg prep (Operator h) sc_ops opts m_arg =
       Inl (ValueError ''Bad dW_factor option'')"
    using init_config_error[where alg = alg and sc_ops = sc_ops and prep = prep and h = h
        and opts = opts and r = r and m_arg = m_arg] opers prep sc by simp
next
  fix e assume e: "StochasticSolver_init alg prep (Operator h) sc_ops opts m_arg = Inl e"
  then have "measurement_config alg opts sc m_arg = Inl e"
    using opers prep sc
    by (auto simp add: StochasticSolver_init_def Let_def split: sum.splits)
  from config_error_only[OF this]
  show "e = ValueError ''Bad dW_factor option''"
    and "length (resolve_dW_factor alg opts sc m_arg) \<noteq> n_m_ops opts sc"
    by simp_all
next
  fix s assume s: "StochasticSolver_init alg prep (Operator h) sc_ops opts m_arg = Inr s"
  then obtain m d where "measurement_config alg opts sc m_arg = Inr (m, d)"
    and "m_ops s = m" "dW_factors s = d"
    using opers prep sc
    by (auto simp add: StochasticSolver_init_def Let_def split: sum.splits)
  with config_lengths[OF _ store]
  show "length (m_ops s) = n_m_ops opts sc" and "length (dW_factors s) = n_m_ops opts sc"
    by blast+
qed

theorem length_mismatch_rejected_witness:
  "store_measurement \<lparr>heterodyne = False, store_measurement = True, dW_factor = Sequence [1, 2]\<rparr> \<and>
   [(False, 2)] = map (QobjEvo flagged_algebra) (sc_list (Several [(False, 2)])) \<and>
   \<not> list_ex (\<lambda>c. \<not> isoper flagged_algebra c) [(False, 2)] \<and>
   plain_prep (QobjEvo flagged_algebra (False, 1)) [(False, 2)] False = Inr () \<and>
   length (resolve_dW_factor flagged_algebra
       \<lparr>heterodyne = False, store_measurement = True, dW_factor = Sequence [1, 2]\<rparr> [(False, 2)] [])
     \<noteq> n_m_ops \<lparr>heterodyne = False, store_measurement = True, dW_factor = Sequence [1, 2]\<rparr>
         [(False, 2 :: complex)] \<and>
   StochasticSolver_init flagged_algebra plain_prep (Operator (False, 1)) (Several [(False, 2)])
     \<lparr>heterodyne = False, store_measurement = True, dW_factor = Sequence [1, 2]\<rparr> [] =
     Inl (ValueError ''Bad dW_factor option'') \<and>
   StochasticSolver_init flagged_algebra plain_prep (Operator (False, 1)) (Several [(False, 2)])
     \<lparr>heterodyne = False, store_measurement = True, dW_factor = PyNone\<rparr> [] =
     Inr homodyne_solver \<and>
   length (m_ops homodyne_solver) = 1 \<and> length (dW_factors homodyne_solver) = 1"
proof -
  let ?bad = "\<lparr>heterodyne = False, store_measurement = True, dW_factor = Sequence [1, 2]\<rparr>"
  let ?good = "\<lparr>heterodyne = False, store_measurement = True, dW_factor = PyNone\<rparr>"
  let ?sc = "[(False, 2)] :: (bool \<times> complex) list"
  have h1: "store_measurement ?bad" and g1: "store_measurement ?good"
    by simp_all
  have h2: "?sc = map (QobjEvo flagged_algebra) (sc_list (Several ?sc))"
    by (simp add: flagged_algebra_def)
  have h3: "\<not> list_ex (\<lambda>c. \<not> isoper flagged_algebra c) ?sc"
    by (simp add: flagged_algebra_def)
  have h4: "plain_prep (QobjEvo flagged_algebra (False, 1)) ?sc (heterodyne ?bad) = Inr ()"
    and g4: "plain_prep (QobjEvo flagged_algebra (False, 1)) ?sc (heterodyne ?good) = Inr ()"
    by (simp_all add: plain_prep_def)
  have mis: "length (resolve_dW_factor flagged_algebra ?bad ?sc []) \<noteq> n_m_ops ?bad ?sc"
    by (simp add: resolve_dW_factor_def select_m_ops_def py_or_def n_m_ops_def)
  note bad = length_mismatch_rejected[where opts = ?bad and alg = flagged_algebra and sc = ?sc
      and sc_ops = "Several ?sc" and m_arg = "[]" and prep = plain_prep and h = "(False, 1)"
      and r = "()", OF h1 h2 h3 h4]
  from bad mis have err:
    "StochasticSolver_init flagged_algebra plain_prep (Operator (False, 1)) (Several ?sc) ?bad [] =
       Inl (ValueError ''Bad dW_factor option'')"
    by blast
  note good = length_mismatch_rejected[where opts = ?good and alg = flagged_algebra and sc = ?sc
      and sc_ops = "Several ?sc" and m_arg = "[]" and prep = plain_prep and h = "(False, 1)"
      and r = "()", OF g1 h2 h3 g4]
  have built:
    "StochasticSolver_init flagged_algebra plain_prep (Operator (False, 1)) (Several ?sc) ?good [] =
       Inr homodyne_solver"
    by (rule solvers_built(1))
  from good built have lens:
    "length (m_ops homodyne_solver) = n_m_ops ?good ?sc \<and>
     length (dW_factors homodyne_solver) = n_m_ops ?good ?sc"
    by blast
  then have l: "length (m_ops homodyne_solver) = 1" "length (dW_factors homodyne_solver) = 1"
    by (simp_all add: n_m_ops_def)
  have h4': "plain_prep (QobjEvo flagged_algebra (False, 1)) ?sc False = Inr ()"
    using h4 by simp
  show ?thesis using h1 h2 h3 h4' mis err built l by blast
qed

text \<open>
  Claim C6 without the option: with \<^verbatim>\<open>store_measurement\<close> off the guarded block is
  skipped, and a weight sequence of three entries for one channel is accepted.
\<close>

theorem length_mismatch_accepted_when_disabled:
  "length (resolve_dW_factor flagged_algebra
       \<lparr>heterodyne = False, store_measurement = False, dW_factor = Sequence [1, 2, 3]\<rparr>
       [(False, 2)] [])
     \<noteq> n_m_ops \<lparr>heterodyne = False, store_measurement = False, dW_factor = Sequence [1, 2, 3]\<rparr>
         [(False, 2 :: complex)] \<and>
   StochasticSolver_init flagged_algebra plain_prep (Operator (False, 1)) (Several [(False, 2)])
     \<lparr>heterodyne = False, store_measurement = False, dW_factor = Sequence [1, 2, 3]\<rparr> [] =
     Inr \<lparr>rhs = (),
          options = \<lparr>heterodyne = False, store_measurement = False, dW_factor = Sequence [1, 2, 3]\<rparr>,
          m_ops = [], dW_factors = []\<rparr>"
  by (simp add: StochasticSolver_init_def measurement_config_def resolve_dW_factor_def
      select_m_ops_def py_or_def n_m_ops_def flagged_algebra_def plain_prep_def Let_def)

subsection \<open>C7: reduction of a heterodyne trajectory\<close>

text \<open>
  Claim C7. Under \<^verbatim>\<open>heterodyne\<close> with \<^verbatim>\<open>store_measurement\<close>, the reduction turns
  the nested measurement record of a trajectory into an array of shape
  \<open>(n_sc_ops, 2, n_steps)\<close>, the two quadratures of each collapse operator grouped,
  appends it to the measurement collection of the ensemble and drops the nested list.

  The code computes \<^verbatim>\<open>trajectory.measurements.reshape(-1, 2, shape[-1])\<close> and binds
  the value to nothing, so the array it appends keeps the shape
  \<open>(n_channels, n_steps)\<close>: for one collapse operator and two steps the shape is
  \<open>(2, 2)\<close>, not \<open>(1, 2, 2)\<close>. The array is appended and replaces the nested list, as
  claimed (\<open>reduce_expect_rows\<close>).
\<close>

theorem heterodyne_reduction_not_grouped:
  "reduce_expect (StochasticResult_post_init (options heterodyne_solver)) heterodyne_trajectory =
   Inr (\<lparr>ens_options = options heterodyne_solver,
          measurement = [\<lparr>shape = [2, 2], data = [1, 6, 1, 2]\<rparr>]\<rparr>,
        heterodyne_trajectory\<lparr>measurements := Array \<lparr>shape = [2, 2], data = [1, 6, 1, 2]\<rparr>\<rparr>)"
  by (simp add: reduce_expect_def StochasticResult_post_init_def reshape_m1_2_def Let_def
      heterodyne_solver_def heterodyne_trajectory_def)

subsection \<open>C8: type errors of the constructor\<close>

text \<open>
  Claim C8. In both solver variants, a Hamiltonian that is not an operator object, or
  a stochastic collapse operator that is not a plain operator, makes the constructor
  raise a type error; the checks are made at construction and never during a
  trajectory.

  The variants differ in \<^verbatim>\<open>_prep_system\<close> alone, which the theorem leaves
  arbitrary. The second part says that a solver exists only where both checks have
  passed, so that no run is left to find a violation.
\<close>

theorem type_errors:
  assumes sc: "sc = map (QobjEvo alg) (sc_list sc_ops)"
  shows "(H = NotOperator \<or> list_ex (\<lambda>c. \<not> isoper alg c) sc \<longrightarrow>
            (\<exists>msg. StochasticSolver_init alg prep H sc_ops opts m_arg = Inl (TypeError msg))) \<and>
         (\<forall>s. StochasticSolver_init alg prep H sc_ops opts m_arg = Inr s \<longrightarrow>
            H \<noteq> NotOperator \<and> list_all (isoper alg) sc)"
  using sc
  by (auto simp add: StochasticSolver_init_def Let_def list_ex_iff list_all_iff
      split: h_arg.splits sum.splits if_splits)

theorem type_errors_witness:
  "[(False, 2)] = map (QobjEvo flagged_algebra) (sc_list (Several [(False, 2)])) \<and>
   [(True, 2)] = map (QobjEvo flagged_algebra) (sc_list (Single (True, 2))) \<and>
   list_ex (\<lambda>c. \<not> isoper flagged_algebra c) [(True, 2)] \<and>
   (\<exists>msg. StochasticSolver_init flagged_algebra plain_prep NotOperator (Several [(False, 2)])
            \<lparr>heterodyne = False, store_measurement = True, dW_factor = PyNone\<rparr> [] =
          Inl (TypeError msg)) \<and>
   (\<exists>msg. StochasticSolver_init flagged_algebra plain_prep (Operator (False, 1)) (Single (True, 2))
            \<lparr>heterodyne = False, store_measurement = True, dW_factor = PyNone\<rparr> [] =
          Inl (TypeError msg)) \<and>
   StochasticSolver_init flagged_algebra plain_prep (Operator (False, 1)) (Several [(False, 2)])
     \<lparr>heterodyne = False, store_measurement = True, dW_factor = PyNone\<rparr> [] = Inr homodyne_solver \<and>
   list_all (isoper flagged_algebra) [(False, 2)]"
proof -
  let ?opts = "\<lparr>heterodyne = False, store_measurement = True, dW_factor = PyNone\<rparr>"
  have h1: "[(False, 2)] = map (QobjEvo flagged_algebra) (sc_list (Several [(False, 2)]))"
    and h2: "[(True, 2)] = map (QobjEvo flagged_algebra) (sc_list (Single (True, 2)))"
    and h3: "list_ex (\<lambda>c. \<not> isoper flagged_algebra c) [(True, 2)]"
    by (simp_all add: flagged_algebra_def)
  from type_errors[where alg = flagged_algebra and sc = "[(False, 2)]"
      and sc_ops = "Several [(False, 2)]" and H = NotOperator and prep = plain_prep
      and opts = ?opts and m_arg = "[]", OF h1]
  have a: "\<exists>msg. StochasticSolver_init flagged_algebra plain_prep NotOperator (Several [(False, 2)])
            ?opts [] = Inl (TypeError msg)"
    by blast
  from type_errors[where alg = flagged_algebra and sc = "[(True, 2)]"
      and sc_ops = "Single (True, 2)" and H = "Operator (False, 1)" and prep = plain_prep
      and opts = ?opts and m_arg = "[]", OF h2] h3
  have b: "\<exists>msg. StochasticSolver_init flagged_algebra plain_prep (Operator (False, 1))
            (Single (True, 2)) ?opts [] = Inl (TypeError msg)"
    by blast
  have built:
    "StochasticSolver_init flagged_algebra plain_prep (Operator (False, 1)) (Several [(False, 2)])
       ?opts [] = Inr homodyne_solver"
    by (rule solvers_built(1))
  from type_errors[where alg = flagged_algebra and sc = "[(False, 2)]"
      and sc_ops = "Several [(False, 2)]" and H = "Operator (False, 1)" and prep = plain_prep
      and opts = ?opts and m_arg = "[]", OF h1] built
  have c: "list_all (isoper flagged_algebra) [(False, 2)]"
    by blast
  show ?thesis using h1 h2 h3 a b built c by blast
qed

subsection \<open>C9: a run is reproducible and echoes its seed\<close>

text \<open>
  Claim C9. Two runs of one trajectory with the same seed and the same inputs, on an
  integrator that reproduces its output, record the same states and the same noise,
  and each run returns the pair of its seed and its result.

  The integrator is one object, shared by the runs of a solver and changed by each of
  them. It reproduces its output when \<^verbatim>\<open>set_state\<close> leaves nothing of its earlier
  state. Then whatever state earlier runs left behind, a run returns the same error or
  the same pair, the whole result included; and the first component of a returned
  pair is the seed.
\<close>

theorem run_reproducible:
  assumes "\<forall>i i' t d g. set_state c i t d g = set_state c i' t d g"
  shows "returned (run_one_traj c s i1 seed state tlist es) =
         returned (run_one_traj c s i2 seed state tlist es) \<and>
         (\<forall>sd res. returned (run_one_traj c s i1 seed state tlist es) = Inr (sd, res) \<longrightarrow> sd = seed)"
proof -
  have "set_state c i1 t0 state g = set_state c i2 t0 state g" for t0 g
    using assms by blast
  then have "run_one_traj c s i1 seed state tlist es = run_one_traj c s i2 seed state tlist es"
    by (simp add: run_one_traj_def Let_def split: list.splits)
  moreover have "sd = seed" if "returned (run_one_traj c s i1 seed state tlist es) = Inr (sd, res)" for sd res
    using that
    by (auto simp add: run_one_traj_def returned_def Let_def split: list.splits sum.splits)
  ultimately show ?thesis by simp
qed

theorem run_reproducible_witness:
  "(\<forall>i i' t d g. set_state (counting_collab 1) i t d g = set_state (counting_collab 1) i' t d g) \<and>
   returned (run_one_traj (counting_collab 1) homodyne_solver 7 (0 :: nat) 1 [0, 1, 3] ()) =
     returned (run_one_traj (counting_collab 1) homodyne_solver 99 (0 :: nat) 1 [0, 1, 3] ()) \<and>
   returned (run_one_traj (counting_collab 1) homodyne_solver 7 (0 :: nat) 1 [0, 1, 3] ()) =
     Inr (0, homodyne_trajectory)"
proof -
  have h: "\<forall>i i' t d g. set_state (counting_collab 1) i t d g = set_state (counting_collab 1) i' t d g"
    by (simp add: counting_collab_def)
  have r: "returned (run_one_traj (counting_collab 1) homodyne_solver 7 (0 :: nat) 1 [0, 1, 3] ()) =
     Inr (0, homodyne_trajectory)"
    unfolding homodyne_run by (simp add: returned_def)
  from run_reproducible[OF h, where s = homodyne_solver and ?i1.0 = 7 and ?i2.0 = 99
      and seed = "0 :: nat" and state = 1 and tlist = "[0, 1, 3]" and es = "()"]
  have e: "returned (run_one_traj (counting_collab 1) homodyne_solver 7 (0 :: nat) 1 [0, 1, 3] ()) =
     returned (run_one_traj (counting_collab 1) homodyne_solver 99 (0 :: nat) 1 [0, 1, 3] ())"
    by blast
  show ?thesis using h r e by blast
qed

subsection \<open>C10: measurement recording disabled\<close>

text \<open>
  Claim C10. With \<^verbatim>\<open>store_measurement\<close> off, the solver holds no measurement
  operator and no weight, whatever \<^verbatim>\<open>heterodyne\<close>, \<^verbatim>\<open>m_ops\<close> and
  \<^verbatim>\<open>dW_factor\<close> are; no length is validated, so values that are a configuration
  error with \<^verbatim>\<open>store_measurement\<close> are accepted. The instance after the theorem
  is a weight sequence of three entries for one collapse operator: rejected with the
  option on, accepted with it off.
\<close>

theorem store_disabled:
  assumes off: "\<not> store_measurement opts"
    and sc: "sc = map (QobjEvo alg) (sc_list sc_ops)"
    and opers: "\<not> list_ex (\<lambda>c. \<not> isoper alg c) sc"
    and prep: "prep (QobjEvo alg h) sc (heterodyne opts) = Inr r"
  shows "measurement_config alg opts sc m_arg = Inr ([], []) \<and>
         StochasticSolver_init alg prep (Operator h) sc_ops opts m_arg =
           Inr \<lparr>rhs = r, options = opts, m_ops = [], dW_factors = []\<rparr>"
proof -
  have cfg: "measurement_config alg opts sc m_arg = Inr ([], [])"
    using off by (rule config_disabled)
  then show ?thesis
    using init_ok[where alg = alg and sc_ops = sc_ops and prep = prep and h = h and opts = opts
        and r = r and m_arg = m_arg and m = "[]" and d = "[]"] opers prep sc
    by simp
qed

theorem store_disabled_witness:
  "\<not> store_measurement \<lparr>heterodyne = True, store_measurement = False, dW_factor = Sequence [1, 2, 3]\<rparr> \<and>
   [(False, 2)] = map (QobjEvo flagged_algebra) (sc_list (Several [(False, 2)])) \<and>
   \<not> list_ex (\<lambda>c. \<not> isoper flagged_algebra c) [(False, 2)] \<and>
   plain_prep (QobjEvo flagged_algebra (False, 1)) [(False, 2)] True = Inr () \<and>
   StochasticSolver_init flagged_algebra plain_prep (Operator (False, 1)) (Several [(False, 2)])
     \<lparr>heterodyne = True, store_measurement = False, dW_factor = Sequence [1, 2, 3]\<rparr> [(False, 9)] =
     Inr \<lparr>rhs = (),
          options = \<lparr>heterodyne = True, store_measurement = False, dW_factor = Sequence [1, 2, 3]\<rparr>,
          m_ops = [], dW_factors = []\<rparr> \<and>
   StochasticSolver_init flagged_algebra plain_prep (Operator (False, 1)) (Several [(False, 2)])
     \<lparr>heterodyne = True, store_measurement = True, dW_factor = Sequence [1, 2, 3]\<rparr> [(False, 9)] =
     Inl (ValueError ''Bad dW_factor option'')"
proof -
  let ?opts = "\<lparr>heterodyne = True, store_measurement = False, dW_factor = Sequence [1, 2, 3]\<rparr>"
  let ?sc = "[(False, 2)] :: (bool \<times> complex) list"
  have h1: "\<not> store_measurement ?opts"
    by simp
  have h2: "?sc = map (QobjEvo flagged_algebra) (sc_list (Several ?sc))"
    and h3: "\<not> list_ex (\<lambda>c. \<not> isoper flagged_algebra c) ?sc"
    by (simp_all add: flagged_algebra_def)
  have h4: "plain_prep (QobjEvo flagged_algebra (False, 1)) ?sc (heterodyne ?opts) = Inr ()"
    by (simp add: plain_prep_def)
  from store_disabled[where opts = ?opts and alg = flagged_algebra and sc = ?sc
      and sc_ops = "Several ?sc" and m_arg = "[(False, 9)]" and prep = plain_prep
      and h = "(False, 1)" and r = "()", OF h1 h2 h3 h4]
  have off: "StochasticSolver_init flagged_algebra plain_prep (Operator (False, 1)) (Several ?sc)
       ?opts [(False, 9)] = Inr \<lparr>rhs = (), options = ?opts, m_ops = [], dW_factors = []\<rparr>"
    by blast
  have on: "StochasticSolver_init flagged_algebra plain_prep (Operator (False, 1)) (Several ?sc)
     \<lparr>heterodyne = True, store_measurement = True, dW_factor = Sequence [1, 2, 3]\<rparr> [(False, 9)] =
     Inl (ValueError ''Bad dW_factor option'')"
    by (simp add: StochasticSolver_init_def measurement_config_def resolve_dW_factor_def
        select_m_ops_def py_or_def n_m_ops_def heterodyne_m_ops_def flagged_algebra_def
        plain_prep_def Let_def)
  have h4': "plain_prep (QobjEvo flagged_algebra (False, 1)) ?sc True = Inr ()"
    using h4 by simp
  show ?thesis using h1 h2 h3 h4' off on by blast
qed

end
